theory Spec2Isabelle
  imports Complex_Main
begin

section \<open>Python values\<close>

text \<open>
  The program is \<^verbatim>\<open>src/main.py\<close>: a JSON-RPC dispatcher (class
  \<^verbatim>\<open>SimpleMCPCalculator\<close>) with one tool, \<^verbatim>\<open>add_numbers\<close>. Its requests are
  the values \<^verbatim>\<open>json.loads\<close> produces and its responses are Python dictionaries, so both
  are modelled by one datatype of Python values.

  \<^item> \<open>PInt\<close> carries Python's unbounded integers.
  \<^item> \<open>PFloat\<close> carries a binary64 number (type \<open>pyfloat\<close> below).
  \<^item> \<open>PStr\<close> carries a string as a list of characters.
  \<^item> \<open>PDict\<close> carries a dictionary with string keys as an association list in insertion
    order; lookup takes the first entry of a key, and the dictionaries the program builds
    have distinct keys.
\<close>

datatype pyfloat = Finite bool nat int | Infinity bool | NaN

datatype pyval =
    PNone
  | PBool bool
  | PInt int
  | PFloat pyfloat
  | PStr string
  | PList "pyval list"
  | PDict "(string \<times> pyval) list"

type_synonym pydict = "(string \<times> pyval) list"

text \<open>
  The exceptions that the operations of the program can raise on such values. A Python
  function that may raise returns a value of type \<open>exn + 'a\<close>, with \<open>Inl\<close> for the raised
  exception; \<^verbatim>\<open>try\<close>/\<^verbatim>\<open>except\<close> is a case distinction on that sum. All five are
  subclasses of \<^verbatim>\<open>Exception\<close>.
\<close>

datatype exn =
    AttributeError string
  | KeyError string
  | ValueError string
  | TypeError string
  | OverflowError string

text \<open>
  Three built-ins of CPython are parameters of the model: the conversion \<^verbatim>\<open>float(s)\<close> of
  a string (\<open>None\<close> stands for \<^verbatim>\<open>ValueError\<close>), and \<^verbatim>\<open>repr\<close> of a float and of a
  string. Every theorem below holds for all values of these parameters. The current time
  \<^verbatim>\<open>datetime.now().isoformat()\<close> is a further parameter, \<open>now\<close>, of the functions that
  read the clock. Calls of \<^verbatim>\<open>logging\<close> do not influence any returned value and are left out.
\<close>

record builtins =
  float_of_str :: "string \<Rightarrow> pyfloat option"
  repr_float :: "pyfloat \<Rightarrow> string"
  repr_str :: "string \<Rightarrow> string"

subsection \<open>Binary64 arithmetic\<close>

text \<open>
  \<open>Finite s m e\<close> is the number \<open>m * 2 ^ e\<close>, negated when \<open>s\<close> holds. The doubles are
  the values with \<open>m < 2 ^ 53\<close> and \<open>-1074 \<le> e \<le> 971\<close>, normalised so that
  \<open>2 ^ 52 \<le> m\<close> unless \<open>e = -1074\<close>; zero is \<open>Finite s 0 0\<close>. \<open>round_rat s n d\<close> rounds the rational \<open>n / d\<close> to
  the nearest double, ties to even, and overflows to infinity; \<open>float_of_int\<close> is
  \<^verbatim>\<open>float(i)\<close> before its overflow check, \<open>fadd\<close> is \<^verbatim>\<open>+\<close> on floats, \<open>is_integer\<close> and
  \<open>int_of_float\<close> are \<^verbatim>\<open>float.is_integer\<close> and \<^verbatim>\<open>int\<close>. \<open>float_val\<close> is the rational
  value of a finite float.
\<close>

fun bitlen :: "nat \<Rightarrow> nat" where
  "bitlen n = (if n = 0 then 0 else Suc (bitlen (n div 2)))"

declare bitlen.simps [simp del]

definition log2_adjust :: "nat \<Rightarrow> nat \<Rightarrow> int \<Rightarrow> int" where
  "log2_adjust n d k = (if d * 2 ^ nat k \<le> n * 2 ^ nat (- k) then k else k - 1)"

definition floor_log2 :: "nat \<Rightarrow> nat \<Rightarrow> int" where
  "floor_log2 n d = log2_adjust n d (int (bitlen n) - int (bitlen d))"

definition pack :: "bool \<Rightarrow> nat \<Rightarrow> int \<Rightarrow> pyfloat" where
  "pack s m e =
     (if 971 < e then Infinity s
      else if m = 0 then Finite s 0 0
      else Finite s m e)"

definition renormalize :: "bool \<Rightarrow> nat \<Rightarrow> int \<Rightarrow> pyfloat" where
  "renormalize s m e = (if m = 2 ^ 53 then pack s (2 ^ 52) (e + 1) else pack s m e)"

definition round_half_even :: "nat \<Rightarrow> nat \<Rightarrow> nat" where
  "round_half_even num den =
     (if den < 2 * (num mod den) \<or> (2 * (num mod den) = den \<and> odd (num div den))
      then num div den + 1
      else num div den)"

definition round_at :: "bool \<Rightarrow> nat \<Rightarrow> nat \<Rightarrow> int \<Rightarrow> pyfloat" where
  "round_at s n d e = renormalize s (round_half_even (n * 2 ^ nat (- e)) (d * 2 ^ nat e)) e"

definition round_rat :: "bool \<Rightarrow> nat \<Rightarrow> nat \<Rightarrow> pyfloat" where
  "round_rat s n d =
     (if n = 0 then Finite s 0 0
      else round_at s n d (max (floor_log2 n d - 52) (- 1074)))"

definition float_of_int :: "int \<Rightarrow> pyfloat" where
  "float_of_int i = round_rat (i < 0) (nat \<bar>i\<bar>) 1"

definition signed :: "bool \<Rightarrow> nat \<Rightarrow> int" where
  "signed s m = (if s then - int m else int m)"

definition of_scaled :: "bool \<Rightarrow> int \<Rightarrow> int \<Rightarrow> pyfloat" where
  "of_scaled zero_sign v e =
     (if v = 0 then Finite zero_sign 0 0
      else round_rat (v < 0) (nat \<bar>v\<bar> * 2 ^ nat e) (2 ^ nat (- e)))"

fun fadd :: "pyfloat \<Rightarrow> pyfloat \<Rightarrow> pyfloat" where
  "fadd NaN y = NaN"
| "fadd x NaN = NaN"
| "fadd (Infinity s) (Infinity t) = (if s = t then Infinity s else NaN)"
| "fadd (Infinity s) (Finite t m e) = Infinity s"
| "fadd (Finite s m e) (Infinity t) = Infinity t"
| "fadd (Finite s1 m1 e1) (Finite s2 m2 e2) =
     of_scaled (s1 \<and> s2)
       (signed s1 (m1 * 2 ^ nat (e1 - min e1 e2)) + signed s2 (m2 * 2 ^ nat (e2 - min e1 e2)))
       (min e1 e2)"

fun is_integer :: "pyfloat \<Rightarrow> bool" where
  "is_integer (Finite s m e) = (0 \<le> e \<or> 2 ^ nat (- e) dvd m)"
| "is_integer (Infinity s) = False"
| "is_integer NaN = False"

fun int_of_float :: "pyfloat \<Rightarrow> exn + int" where
  "int_of_float (Finite s m e) = Inr (signed s (m * 2 ^ nat e div 2 ^ nat (- e)))"
| "int_of_float (Infinity s) = Inl (OverflowError ''cannot convert float infinity to integer'')"
| "int_of_float NaN = Inl (ValueError ''cannot convert float NaN to integer'')"

fun float_val :: "pyfloat \<Rightarrow> rat option" where
  "float_val (Finite s m e) = Some (of_int (signed s m) * 2 ^ nat e / 2 ^ nat (- e))"
| "float_val (Infinity s) = None"
| "float_val NaN = None"

subsection \<open>Built-in operations on values\<close>

text \<open>
  Truth value testing (\<^verbatim>\<open>not x\<close>), \<^verbatim>\<open>isinstance(x, dict)\<close>, the dictionary operations
  \<^verbatim>\<open>d.get(k)\<close>, \<^verbatim>\<open>d.get(k, default)\<close>, \<^verbatim>\<open>k in d\<close>, \<^verbatim>\<open>d[k]\<close> and \<^verbatim>\<open>d[k] = v\<close>,
  the attribute access \<^verbatim>\<open>x.get(k)\<close> on an arbitrary value (\<^verbatim>\<open>AttributeError\<close> unless
  \<open>x\<close> is a dictionary), \<^verbatim>\<open>str\<close>, and \<^verbatim>\<open>float\<close> with its three ways of failing.
\<close>

fun truthy :: "pyval \<Rightarrow> bool" where
  "truthy PNone = False"
| "truthy (PBool b) = b"
| "truthy (PInt i) = (i \<noteq> 0)"
| "truthy (PFloat (Finite s m e)) = (m \<noteq> 0)"
| "truthy (PFloat (Infinity s)) = True"
| "truthy (PFloat NaN) = True"
| "truthy (PStr s) = (s \<noteq> [])"
| "truthy (PList xs) = (xs \<noteq> [])"
| "truthy (PDict d) = (d \<noteq> [])"

fun type_name :: "pyval \<Rightarrow> string" where
  "type_name PNone = ''NoneType''"
| "type_name (PBool b) = ''bool''"
| "type_name (PInt i) = ''int''"
| "type_name (PFloat f) = ''float''"
| "type_name (PStr s) = ''str''"
| "type_name (PList xs) = ''list''"
| "type_name (PDict d) = ''dict''"

fun isinstance_dict :: "pyval \<Rightarrow> bool" where
  "isinstance_dict (PDict d) = True"
| "isinstance_dict v = False"

definition quoted :: "string \<Rightarrow> string" where
  "quoted s = [CHR 0x27] @ s @ [CHR 0x27]"

definition dict_get :: "pydict \<Rightarrow> string \<Rightarrow> pyval" where
  "dict_get d k = (case map_of d k of None \<Rightarrow> PNone | Some v \<Rightarrow> v)"

definition dict_get_default :: "pydict \<Rightarrow> string \<Rightarrow> pyval \<Rightarrow> pyval" where
  "dict_get_default d k dflt = (case map_of d k of None \<Rightarrow> dflt | Some v \<Rightarrow> v)"

definition dict_contains :: "string \<Rightarrow> pydict \<Rightarrow> bool" where
  "dict_contains k d = (map_of d k \<noteq> None)"

definition dict_getitem :: "builtins \<Rightarrow> pydict \<Rightarrow> string \<Rightarrow> exn + pyval" where
  "dict_getitem py d k =
     (case map_of d k of None \<Rightarrow> Inl (KeyError (repr_str py k)) | Some v \<Rightarrow> Inr v)"

fun dict_setitem :: "pydict \<Rightarrow> string \<Rightarrow> pyval \<Rightarrow> pydict" where
  "dict_setitem [] k v = [(k, v)]"
| "dict_setitem ((k', v') # d) k v =
     (if k' = k then (k, v) # d else (k', v') # dict_setitem d k v)"

definition py_get :: "pyval \<Rightarrow> string \<Rightarrow> exn + pyval" where
  "py_get x k =
     (case x of
        PDict d \<Rightarrow> Inr (dict_get d k)
      | _ \<Rightarrow> Inl (AttributeError
                 (quoted (type_name x) @ '' object has no attribute '' @ quoted ''get'')))"

fun digits :: "nat \<Rightarrow> string" where
  "digits n =
     (if n < 10 then [''0123456789'' ! n]
      else digits (n div 10) @ [''0123456789'' ! (n mod 10)])"

declare digits.simps [simp del]

definition str_of_int :: "int \<Rightarrow> string" where
  "str_of_int i = (if i < 0 then ''-'' @ digits (nat (- i)) else digits (nat i))"

fun join :: "string \<Rightarrow> string list \<Rightarrow> string" where
  "join sep [] = []"
| "join sep [x] = x"
| "join sep (x # y # ys) = x @ sep @ join sep (y # ys)"

fun py_repr :: "builtins \<Rightarrow> pyval \<Rightarrow> string"
  and repr_elems :: "builtins \<Rightarrow> pyval list \<Rightarrow> string list"
  and repr_items :: "builtins \<Rightarrow> (string \<times> pyval) list \<Rightarrow> string list"
where
  "py_repr py PNone = ''None''"
| "py_repr py (PBool b) = (if b then ''True'' else ''False'')"
| "py_repr py (PInt i) = str_of_int i"
| "py_repr py (PFloat f) = repr_float py f"
| "py_repr py (PStr s) = repr_str py s"
| "py_repr py (PList xs) = ''['' @ join '', '' (repr_elems py xs) @ '']''"
| "py_repr py (PDict d) = ''{'' @ join '', '' (repr_items py d) @ ''}''"
| "repr_elems py [] = []"
| "repr_elems py (x # xs) = py_repr py x # repr_elems py xs"
| "repr_items py [] = []"
| "repr_items py ((k, v) # d) = (repr_str py k @ '': '' @ py_repr py v) # repr_items py d"

definition py_str :: "builtins \<Rightarrow> pyval \<Rightarrow> string" where
  "py_str py v = (case v of PStr s \<Rightarrow> s | _ \<Rightarrow> py_repr py v)"

fun exn_str :: "exn \<Rightarrow> string" where
  "exn_str (AttributeError msg) = msg"
| "exn_str (KeyError msg) = msg"
| "exn_str (ValueError msg) = msg"
| "exn_str (TypeError msg) = msg"
| "exn_str (OverflowError msg) = msg"

definition float_type_error :: "pyval \<Rightarrow> exn" where
  "float_type_error v =
     TypeError (''float() argument must be a string or a real number, not ''
                @ quoted (type_name v))"

fun py_float :: "builtins \<Rightarrow> pyval \<Rightarrow> exn + pyfloat" where
  "py_float py PNone = Inl (float_type_error PNone)"
| "py_float py (PBool b) = Inr (float_of_int (if b then 1 else 0))"
| "py_float py (PInt i) =
     (case float_of_int i of
        Infinity s \<Rightarrow> Inl (OverflowError ''int too large to convert to float'')
      | f \<Rightarrow> Inr f)"
| "py_float py (PFloat f) = Inr f"
| "py_float py (PStr s) =
     (case float_of_str py s of
        None \<Rightarrow> Inl (ValueError (''could not convert string to float: '' @ repr_str py s))
      | Some f \<Rightarrow> Inr f)"
| "py_float py (PList xs) = Inl (float_type_error (PList xs))"
| "py_float py (PDict d) = Inl (float_type_error (PDict d))"

fun is_ValueError_or_TypeError :: "exn \<Rightarrow> bool" where
  "is_ValueError_or_TypeError (ValueError msg) = True"
| "is_ValueError_or_TypeError (TypeError msg) = True"
| "is_ValueError_or_TypeError e = False"

section \<open>The calculator (class SimpleMCPCalculator)\<close>

text \<open>
  Each method is translated statement by statement. \<open>create_response\<close> is called with a
  literal dictionary or \<^verbatim>\<open>None\<close> as \<^verbatim>\<open>error\<close> only, hence the type of that argument.
  \<open>add_numbers_try\<close> and \<open>handle_tools_call_try\<close> are the bodies of the \<^verbatim>\<open>try\<close> blocks
  of \<^verbatim>\<open>add_numbers\<close> and \<^verbatim>\<open>handle_tools_call\<close>; \<open>dispatch\<close> is the body of the
  \<^verbatim>\<open>try\<close> block of \<^verbatim>\<open>handle_request\<close>; \<open>internal_error\<close> is the response built by the
  two \<^verbatim>\<open>except Exception\<close> handlers.
\<close>

definition create_response :: "pyval \<Rightarrow> pyval \<Rightarrow> pydict option \<Rightarrow> pyval" where
  "create_response request_id result error =
     (let response =
            [(''jsonrpc'', PStr ''2.0''),
             (''id'', if request_id \<noteq> PNone then request_id else PStr ''unknown'')]
      in case error of
           Some e \<Rightarrow>
             if e \<noteq> [] then
               PDict (dict_setitem response ''error''
                 (PDict [(''code'', dict_get_default e ''code'' (PInt (- 32603))),
                         (''message'', dict_get_default e ''message'' (PStr ''Internal error'')),
                         (''data'', dict_get e ''data'')]))
             else
               PDict (dict_setitem response ''result''
                 (if result \<noteq> PNone then result else PDict []))
         | None \<Rightarrow>
             PDict (dict_setitem response ''result''
               (if result \<noteq> PNone then result else PDict [])))"

definition add_numbers_try :: "builtins \<Rightarrow> string \<Rightarrow> pyval \<Rightarrow> pyval \<Rightarrow> exn + pydict" where
  "add_numbers_try py now num1 num2 =
     (case py_float py num1 of
        Inl e \<Rightarrow> Inl e
      | Inr n1 \<Rightarrow>
          (case py_float py num2 of
             Inl e \<Rightarrow> Inl e
           | Inr n2 \<Rightarrow>
               (let result = fadd n1 n2
                in case (if is_integer result
                         then (case int_of_float result of
                                 Inl e \<Rightarrow> Inl e
                               | Inr i \<Rightarrow> Inr (PInt i))
                         else Inr (PFloat result)) of
                     Inl e \<Rightarrow> Inl e
                   | Inr result \<Rightarrow>
                       Inr [(''number1'', PFloat n1),
                            (''number2'', PFloat n2),
                            (''result'', result),
                            (''operation'', PStr ''addition''),
                            (''timestamp'', PStr now)])))"

definition add_numbers :: "builtins \<Rightarrow> string \<Rightarrow> pyval \<Rightarrow> pyval \<Rightarrow> exn + pydict" where
  "add_numbers py now num1 num2 =
     (case add_numbers_try py now num1 num2 of
        Inr r \<Rightarrow> Inr r
      | Inl e \<Rightarrow>
          if is_ValueError_or_TypeError e then
            Inr [(''number1'', num1),
                 (''number2'', num2),
                 (''error'', PStr (''Invalid numbers provided: '' @ exn_str e)),
                 (''operation'', PStr ''addition''),
                 (''timestamp'', PStr now)]
          else Inl e)"

definition handle_initialize :: "pyval \<Rightarrow> pyval \<Rightarrow> exn + pyval" where
  "handle_initialize request_id params =
     (case py_get params ''protocolVersion'' of
        Inl e \<Rightarrow> Inl e
      | Inr protocol_version \<Rightarrow>
          if \<not> truthy protocol_version then
            Inr (create_response request_id PNone
                   (Some [(''code'', PInt (- 32602)),
                          (''message'', PStr ''Invalid params: protocolVersion is required'')]))
          else
            Inr (create_response request_id
                   (PDict [(''protocolVersion'', protocol_version),
                           (''capabilities'',
                              PDict [(''tools'', PDict []),
                                     (''resources'', PDict []),
                                     (''prompts'', PDict [])]),
                           (''serverInfo'',
                              PDict [(''name'', PStr ''Simple MCP Calculator''),
                                     (''version'', PStr ''1.0.0''),
                                     (''description'',
                                        PStr ''Simple calculator that adds two numbers'')])])
                   None))"

definition tools :: "pyval" where
  "tools =
     PList [PDict [(''name'', PStr ''add_numbers''),
                   (''description'', PStr ''Add two numbers together''),
                   (''inputSchema'',
                      PDict [(''type'', PStr ''object''),
                             (''properties'',
                                PDict [(''number1'',
                                          PDict [(''type'', PStr ''number''),
                                                 (''description'', PStr ''First number to add'')]),
                                       (''number2'',
                                          PDict [(''type'', PStr ''number''),
                                                 (''description'', PStr ''Second number to add'')])]),
                             (''required'', PList [PStr ''number1'', PStr ''number2''])])]]"

definition handle_tools_list :: "pyval \<Rightarrow> pyval \<Rightarrow> exn + pyval" where
  "handle_tools_list request_id params =
     Inr (create_response request_id (PDict [(''tools'', tools)]) None)"

definition NL :: string where
  "NL = [CHR 0x0A]"

definition format_item :: "builtins \<Rightarrow> pydict \<Rightarrow> string \<Rightarrow> exn + string" where
  "format_item py d k =
     (case dict_getitem py d k of Inl e \<Rightarrow> Inl e | Inr v \<Rightarrow> Inr (py_str py v))"

definition error_text :: "builtins \<Rightarrow> pydict \<Rightarrow> exn + string" where
  "error_text py calculation_result =
     (case format_item py calculation_result ''number1'' of Inl e \<Rightarrow> Inl e | Inr n1 \<Rightarrow>
      case format_item py calculation_result ''number2'' of Inl e \<Rightarrow> Inl e | Inr n2 \<Rightarrow>
      case format_item py calculation_result ''error'' of Inl e \<Rightarrow> Inl e | Inr err \<Rightarrow>
      case format_item py calculation_result ''timestamp'' of Inl e \<Rightarrow> Inl e | Inr ts \<Rightarrow>
        Inr (''Addition Error:'' @ NL @
             ''Number 1: '' @ n1 @ NL @
             ''Number 2: '' @ n2 @ NL @
             ''Error: '' @ err @ NL @
             ''Timestamp: '' @ ts))"

definition result_text :: "builtins \<Rightarrow> pydict \<Rightarrow> exn + string" where
  "result_text py calculation_result =
     (case format_item py calculation_result ''number1'' of Inl e \<Rightarrow> Inl e | Inr n1 \<Rightarrow>
      case format_item py calculation_result ''number2'' of Inl e \<Rightarrow> Inl e | Inr n2 \<Rightarrow>
      case format_item py calculation_result ''result'' of Inl e \<Rightarrow> Inl e | Inr res \<Rightarrow>
      case format_item py calculation_result ''timestamp'' of Inl e \<Rightarrow> Inl e | Inr ts \<Rightarrow>
        Inr (''Addition Result:'' @ NL @
             n1 @ '' + '' @ n2 @ '' = '' @ res @ NL @
             ''Timestamp: '' @ ts))"

definition tool_result :: "string \<Rightarrow> bool \<Rightarrow> pyval" where
  "tool_result text is_error =
     PDict [(''content'', PList [PDict [(''type'', PStr ''text''), (''text'', PStr text)]]),
            (''isError'', PBool is_error)]"

definition handle_tools_call_try ::
  "builtins \<Rightarrow> string \<Rightarrow> pyval \<Rightarrow> pyval \<Rightarrow> pyval \<Rightarrow> exn + pyval" where
  "handle_tools_call_try py now request_id tool_name arguments =
     (if tool_name = PStr ''add_numbers'' then
        (case py_get arguments ''number1'' of Inl e \<Rightarrow> Inl e | Inr number1 \<Rightarrow>
         case py_get arguments ''number2'' of Inl e \<Rightarrow> Inl e | Inr number2 \<Rightarrow>
           if number1 = PNone \<or> number2 = PNone then
             Inr (create_response request_id PNone
                    (Some [(''code'', PInt (- 32602)),
                           (''message'', PStr ''Both number1 and number2 are required'')]))
           else
             (case add_numbers py now number1 number2 of
                Inl e \<Rightarrow> Inl e
              | Inr calculation_result \<Rightarrow>
                  (case (if dict_contains ''error'' calculation_result
                         then error_text py calculation_result
                         else result_text py calculation_result) of
                     Inl e \<Rightarrow> Inl e
                   | Inr text \<Rightarrow>
                       Inr (create_response request_id
                              (tool_result text (dict_contains ''error'' calculation_result))
                              None))))
      else
        Inr (create_response request_id PNone
               (Some [(''code'', PInt (- 32601)),
                      (''message'', PStr (''Unknown tool: '' @ py_str py tool_name))])))"

definition internal_error :: "pyval \<Rightarrow> exn \<Rightarrow> pyval" where
  "internal_error request_id e =
     create_response request_id PNone
       (Some [(''code'', PInt (- 32603)),
              (''message'', PStr (''Internal error: '' @ exn_str e))])"

definition handle_tools_call :: "builtins \<Rightarrow> string \<Rightarrow> pyval \<Rightarrow> pyval \<Rightarrow> exn + pyval" where
  "handle_tools_call py now request_id params =
     (case params of
        PDict p \<Rightarrow>
          (let tool_name = dict_get p ''name'';
               arguments = dict_get_default p ''arguments'' (PDict [])
           in if \<not> truthy tool_name then
                Inr (create_response request_id PNone
                       (Some [(''code'', PInt (- 32602)),
                              (''message'', PStr (''Invalid params: '' @ quoted ''name'' @ '' is required''))]))
              else
                (case handle_tools_call_try py now request_id tool_name arguments of
                   Inr response \<Rightarrow> Inr response
                 | Inl e \<Rightarrow> Inr (internal_error request_id e)))
      | _ \<Rightarrow>
          Inr (create_response request_id PNone
                 (Some [(''code'', PInt (- 32602)),
                        (''message'', PStr ''Invalid params: must be an object'')])))"

definition dispatch ::
  "builtins \<Rightarrow> string \<Rightarrow> pyval \<Rightarrow> pyval \<Rightarrow> pyval \<Rightarrow> exn + pyval" where
  "dispatch py now method request_id params =
     (if method = PStr ''initialize'' then handle_initialize request_id params
      else if method = PStr ''tools/list'' then handle_tools_list request_id params
      else if method = PStr ''tools/call'' then handle_tools_call py now request_id params
      else
        Inr (create_response request_id PNone
               (Some [(''code'', PInt (- 32601)),
                      (''message'', PStr (''Method not found: '' @ py_str py method))])))"

definition handle_request :: "builtins \<Rightarrow> string \<Rightarrow> pyval \<Rightarrow> exn + pyval" where
  "handle_request py now request =
     (case request of
        PDict r \<Rightarrow>
          (let jsonrpc = dict_get r ''jsonrpc''
           in if jsonrpc \<noteq> PStr ''2.0'' then
                Inr (create_response (dict_get r ''id'') PNone
                       (Some [(''code'', PInt (- 32600)),
                              (''message'', PStr (''Invalid Request: jsonrpc must be '' @ quoted ''2.0''))]))
              else
                (let method = dict_get r ''method''
                 in if \<not> truthy method then
                      Inr (create_response (dict_get r ''id'') PNone
                             (Some [(''code'', PInt (- 32600)),
                                    (''message'', PStr (''Invalid Request: '' @ quoted ''method'' @ '' is required''))]))
                    else
                      (let params = dict_get_default r ''params'' (PDict []);
                           request_id = dict_get r ''id''
                       in case dispatch py now method request_id params of
                            Inr response \<Rightarrow> Inr response
                          | Inl e \<Rightarrow> Inr (internal_error request_id e))))
      | _ \<Rightarrow>
          Inr (create_response PNone PNone
                 (Some [(''code'', PInt (- 32700)),
                        (''message'', PStr ''Parse error: request must be an object'')])))"

section \<open>A reference instance of the string built-ins\<close>

text \<open>
  \<open>reference_builtins\<close> instantiates the parameters for evaluating examples.
  \<open>float_of_ascii\<close> follows \<^verbatim>\<open>float(s)\<close> on ASCII strings: surrounding whitespace, a
  sign, \<^verbatim>\<open>inf\<close>, \<^verbatim>\<open>infinity\<close> and \<^verbatim>\<open>nan\<close> in any case, and decimal literals with
  single underscores between digits, an optional fraction and exponent, rounded to the nearest
  double. \<open>repr_of_str\<close> follows \<^verbatim>\<open>repr\<close> on strings of code points below 256.
  \<open>repr_of_float\<close> prints the exact decimal expansion in positional notation, which is
  \<^verbatim>\<open>repr\<close> for the floats whose expansion has at most 15 significant digits and whose
  magnitude is zero or at least \<open>0.0001\<close> and below \<open>10 ^ 16\<close> (such as \<open>2.0\<close> or \<open>2.5\<close>).
\<close>

definition is_space :: "char \<Rightarrow> bool" where
  "is_space c = (c \<in> set [CHR '' '', CHR 0x09, CHR 0x0A, CHR 0x0B, CHR 0x0C, CHR 0x0D])"

definition strip :: "string \<Rightarrow> string" where
  "strip s = rev (dropWhile is_space (rev (dropWhile is_space s)))"

definition is_digit :: "char \<Rightarrow> bool" where
  "is_digit c = (c \<in> set ''0123456789'')"

definition lower :: "char \<Rightarrow> char" where
  "lower c =
     (case map_of (zip ''ABCDEFGHIJKLMNOPQRSTUVWXYZ'' ''abcdefghijklmnopqrstuvwxyz'') c of
        None \<Rightarrow> c
      | Some l \<Rightarrow> l)"

definition in_run :: "char \<Rightarrow> bool" where
  "in_run c = (is_digit c \<or> c = CHR ''_'')"

definition digit_run :: "string \<Rightarrow> string \<times> string" where
  "digit_run s = (takeWhile in_run s, dropWhile in_run s)"

fun no_double_underscore :: "string \<Rightarrow> bool" where
  "no_double_underscore (a # b # cs) =
     (\<not> (a = CHR ''_'' \<and> b = CHR ''_'') \<and> no_double_underscore (b # cs))"
| "no_double_underscore cs = True"

definition valid_run :: "string \<Rightarrow> bool" where
  "valid_run r = (r = [] \<or> (is_digit (hd r) \<and> is_digit (last r) \<and> no_double_underscore r))"

definition digit_of :: "char \<Rightarrow> nat" where
  "digit_of c = length (takeWhile (\<lambda>d. d \<noteq> c) ''0123456789'')"

definition digits_value :: "string \<Rightarrow> nat" where
  "digits_value r =
     foldl (\<lambda>a c. if is_digit c then 10 * a + digit_of c else a) 0 r"

definition split_sign :: "string \<Rightarrow> bool \<times> string" where
  "split_sign s =
     (case s of
        [] \<Rightarrow> (False, [])
      | c # r \<Rightarrow>
          if c = CHR ''-'' then (True, r)
          else if c = CHR ''+'' then (False, r)
          else (False, s))"

definition scale10 :: "bool \<Rightarrow> nat \<Rightarrow> int \<Rightarrow> pyfloat" where
  "scale10 s n x =
     (if 0 \<le> x then round_rat s (n * 10 ^ nat x) 1 else round_rat s n (10 ^ nat (- x)))"

definition parse_exponent :: "string \<Rightarrow> int option" where
  "parse_exponent s =
     (case s of
        [] \<Rightarrow> Some 0
      | c # r \<Rightarrow>
          if c = CHR ''e'' \<or> c = CHR ''E'' then
            (case split_sign r of
               (neg, t) \<Rightarrow>
                 if t \<noteq> [] \<and> list_all in_run t \<and> valid_run t
                 then Some (signed neg (digits_value t))
                 else None)
          else None)"

definition parse_decimal :: "bool \<Rightarrow> string \<Rightarrow> pyfloat option" where
  "parse_decimal neg u =
     (case digit_run u of
        (ip, r1) \<Rightarrow>
          (case (case r1 of
                   [] \<Rightarrow> ([], [])
                 | c # r \<Rightarrow> if c = CHR ''.'' then digit_run r else ([], r1)) of
             (fp, r2) \<Rightarrow>
               if (ip = [] \<and> fp = []) \<or> \<not> valid_run ip \<or> \<not> valid_run fp then None
               else
                 (case parse_exponent r2 of
                    None \<Rightarrow> None
                  | Some x \<Rightarrow>
                      Some (scale10 neg (digits_value (ip @ fp))
                              (x - int (length (filter is_digit fp)))))))"

definition float_of_ascii :: "string \<Rightarrow> pyfloat option" where
  "float_of_ascii s =
     (case split_sign (strip s) of
        (neg, u) \<Rightarrow>
          if map lower u = ''inf'' \<or> map lower u = ''infinity'' then Some (Infinity neg)
          else if map lower u = ''nan'' then Some NaN
          else parse_decimal neg u)"

definition hex_digit :: "nat \<Rightarrow> char" where
  "hex_digit n = ''0123456789abcdef'' ! n"

definition printable :: "char \<Rightarrow> bool" where
  "printable c =
     ((32 \<le> (of_char c :: nat) \<and> (of_char c :: nat) < 127)
      \<or> (161 \<le> (of_char c :: nat) \<and> (of_char c :: nat) \<noteq> 173))"

definition escape :: "char \<Rightarrow> char \<Rightarrow> string" where
  "escape q c =
     (if c = q \<or> c = CHR 0x5C then [CHR 0x5C, c]
      else if c = CHR 0x09 then [CHR 0x5C, CHR ''t'']
      else if c = CHR 0x0A then [CHR 0x5C, CHR ''n'']
      else if c = CHR 0x0D then [CHR 0x5C, CHR ''r'']
      else if \<not> printable c then
        [CHR 0x5C, CHR ''x'', hex_digit ((of_char c :: nat) div 16),
         hex_digit ((of_char c :: nat) mod 16)]
      else [c])"

definition repr_of_str :: "string \<Rightarrow> string" where
  "repr_of_str s =
     (let q = (if CHR 0x27 \<in> set s \<and> CHR 0x22 \<notin> set s then CHR 0x22 else CHR 0x27)
      in [q] @ concat (map (escape q) s) @ [q])"

definition fraction_digits :: "nat \<Rightarrow> nat \<Rightarrow> string" where
  "fraction_digits k n =
     (let ds = replicate (k - length (digits n)) CHR ''0'' @ digits n;
          ts = rev (dropWhile (\<lambda>c. c = CHR ''0'') (rev ds))
      in if ts = [] then ''0'' else ts)"

fun repr_of_float :: "pyfloat \<Rightarrow> string" where
  "repr_of_float NaN = ''nan''"
| "repr_of_float (Infinity s) = (if s then ''-inf'' else ''inf'')"
| "repr_of_float (Finite s m e) =
     (if s then ''-'' else [])
     @ digits (m * 2 ^ nat e * 5 ^ nat (- e) div 10 ^ nat (- e))
     @ ''.''
     @ fraction_digits (nat (- e)) (m * 2 ^ nat e * 5 ^ nat (- e) mod 10 ^ nat (- e))"

definition reference_builtins :: builtins where
  "reference_builtins =
     \<lparr>float_of_str = float_of_ascii, repr_float = repr_of_float, repr_str = repr_of_str\<rparr>"

section \<open>Observations on responses\<close>

text \<open>
  \<open>response_field r k\<close> reads the top-level field \<open>k\<close> of a returned response and
  \<open>error_field r k\<close> the field \<open>k\<close> of its error object. \<open>is_response\<close> holds of the values
  built by \<open>create_response\<close>. \<open>unparseable py v\<close> says that \<^verbatim>\<open>float(v)\<close> raises
  \<^verbatim>\<open>ValueError\<close> or \<^verbatim>\<open>TypeError\<close>; \<open>int_too_large v\<close> that \<open>v\<close> is an integer for which
  \<^verbatim>\<open>float(v)\<close> raises \<^verbatim>\<open>OverflowError\<close>; \<open>conversion_overflows py num1 num2\<close> that the
  two conversions of \<^verbatim>\<open>add_numbers\<close>, in their order, end in \<^verbatim>\<open>OverflowError\<close>.
  \<open>huge\<close> is an integer beyond the range of binary64.
\<close>

definition response_field :: "exn + pyval \<Rightarrow> string \<Rightarrow> pyval option" where
  "response_field r k = (case r of Inr (PDict d) \<Rightarrow> map_of d k | _ \<Rightarrow> None)"

definition error_field :: "exn + pyval \<Rightarrow> string \<Rightarrow> pyval option" where
  "error_field r k =
     (case response_field r ''error'' of Some (PDict e) \<Rightarrow> map_of e k | _ \<Rightarrow> None)"




definition is_response :: "pyval \<Rightarrow> bool" where
  "is_response r = (\<exists>request_id result error. r = create_response request_id result error)"


section \<open>Responses\<close>

lemma create_response_error:
  "e \<noteq> [] \<Longrightarrow>
   create_response request_id result (Some e) =
     PDict [(''jsonrpc'', PStr ''2.0''),
            (''id'', if request_id \<noteq> PNone then request_id else PStr ''unknown''),
            (''error'',
               PDict [(''code'', dict_get_default e ''code'' (PInt (- 32603))),
                      (''message'', dict_get_default e ''message'' (PStr ''Internal error'')),
                      (''data'', dict_get e ''data'')])]"
  by (simp add: create_response_def)

lemma create_response_result:
  "create_response request_id result None =
     PDict [(''jsonrpc'', PStr ''2.0''),
            (''id'', if request_id \<noteq> PNone then request_id else PStr ''unknown''),
            (''result'', if result \<noteq> PNone then result else PDict [])]"
  by (simp add: create_response_def)

lemma internal_error_eq:
  "internal_error request_id e =
     PDict [(''jsonrpc'', PStr ''2.0''),
            (''id'', if request_id \<noteq> PNone then request_id else PStr ''unknown''),
            (''error'',
               PDict [(''code'', PInt (- 32603)),
                      (''message'', PStr (''Internal error: '' @ exn_str e)),
                      (''data'', PNone)])]"
  by (simp add: internal_error_def create_response_error dict_get_default_def dict_get_def)

text \<open>
  Claim C1, amended. For every input to \<open>handle_request\<close> that is not a mapping (a list,
  string, number, boolean or \<^verbatim>\<open>None\<close>), the returned response carries error code -32700
  with message "Parse error: request must be an object", and the id field of the response
  is the string "unknown": \<open>handle_request\<close> passes \<^verbatim>\<open>None\<close> as the id and
  \<open>create_response\<close> replaces a \<^verbatim>\<open>None\<close> id by "unknown".
\<close>

theorem not_a_mapping:
  "\<not> isinstance_dict request \<Longrightarrow>
   handle_request py now request =
     Inr (PDict [(''jsonrpc'', PStr ''2.0''),
                 (''id'', PStr ''unknown''),
                 (''error'',
                    PDict [(''code'', PInt (- 32700)),
                           (''message'', PStr ''Parse error: request must be an object''),
                           (''data'', PNone)])])"
  by (cases request)
     (simp_all add: handle_request_def create_response_error dict_get_default_def dict_get_def)

theorem not_a_mapping_witness:
  "\<not> isinstance_dict (PList []) \<and>
   handle_request reference_builtins ''2026-01-01T00:00:00'' (PList []) =
     Inr (PDict [(''jsonrpc'', PStr ''2.0''),
                 (''id'', PStr ''unknown''),
                 (''error'',
                    PDict [(''code'', PInt (- 32700)),
                           (''message'', PStr ''Parse error: request must be an object''),
                           (''data'', PNone)])])"
  using not_a_mapping [of "PList []" reference_builtins "''2026-01-01T00:00:00''"] by simp

text \<open>
  Claim C1 as stated asks for a null id. For the empty list as request the id of the
  response is not \<^verbatim>\<open>None\<close>.
\<close>

theorem parse_error_id_counterexample:
  "\<not> isinstance_dict (PList []) \<and>
   response_field (handle_request reference_builtins ''2026-01-01T00:00:00'' (PList [])) ''id''
     \<noteq> Some PNone"
  by (simp add: handle_request_def create_response_error response_field_def)

section \<open>Envelope validation and \<open>initialize\<close>\<close>

lemma handle_request_dict:
  "handle_request py now (PDict r) =
     (if dict_get r ''jsonrpc'' \<noteq> PStr ''2.0'' then
        Inr (create_response (dict_get r ''id'') PNone
               (Some [(''code'', PInt (- 32600)),
                      (''message'', PStr (''Invalid Request: jsonrpc must be '' @ quoted ''2.0''))]))
      else if \<not> truthy (dict_get r ''method'') then
        Inr (create_response (dict_get r ''id'') PNone
               (Some [(''code'', PInt (- 32600)),
                      (''message'', PStr (''Invalid Request: '' @ quoted ''method'' @ '' is required''))]))
      else
        (case dispatch py now (dict_get r ''method'') (dict_get r ''id'')
                (dict_get_default r ''params'' (PDict [])) of
           Inr response \<Rightarrow> Inr response
         | Inl e \<Rightarrow> Inr (internal_error (dict_get r ''id'') e)))"
  by (simp add: handle_request_def Let_def)

text \<open>
  Claim C8, amended. For every request that is a mapping whose \<^verbatim>\<open>jsonrpc\<close> field is not
  equal to "2.0" (missing, or any other value), \<open>handle_request\<close> returns error code
  -32600; the id of the request is echoed into the response when it is present and not
  \<^verbatim>\<open>None\<close>, and the id of the response is "unknown" otherwise.
\<close>

theorem invalid_jsonrpc:
  "dict_get r ''jsonrpc'' \<noteq> PStr ''2.0'' \<Longrightarrow>
   error_field (handle_request py now (PDict r)) ''code'' = Some (PInt (- 32600)) \<and>
   response_field (handle_request py now (PDict r)) ''id'' =
     Some (if dict_get r ''id'' \<noteq> PNone then dict_get r ''id'' else PStr ''unknown'')"
  by (simp add: handle_request_dict create_response_error error_field_def response_field_def
        dict_get_default_def)

theorem invalid_jsonrpc_witness:
  "dict_get [(''jsonrpc'', PStr ''1.0''), (''id'', PInt 7)] ''jsonrpc'' \<noteq> PStr ''2.0'' \<and>
   error_field (handle_request reference_builtins ''2026-01-01T00:00:00''
                  (PDict [(''jsonrpc'', PStr ''1.0''), (''id'', PInt 7)])) ''code''
     = Some (PInt (- 32600)) \<and>
   response_field (handle_request reference_builtins ''2026-01-01T00:00:00''
                     (PDict [(''jsonrpc'', PStr ''1.0''), (''id'', PInt 7)])) ''id''
     = Some (PInt 7)"
  using invalid_jsonrpc [of "[(''jsonrpc'', PStr ''1.0''), (''id'', PInt 7)]"
                            reference_builtins "''2026-01-01T00:00:00''"]
  by (simp add: dict_get_def)

text \<open>
  Claim C8 as stated echoes every id that is present. A request whose id is present with
  the JSON value null is answered with the id "unknown".
\<close>

theorem null_id_not_echoed_counterexample:
  "dict_get [(''jsonrpc'', PStr ''1.0''), (''id'', PNone)] ''jsonrpc'' \<noteq> PStr ''2.0'' \<and>
   map_of [(''jsonrpc'', PStr ''1.0''), (''id'', PNone)] ''id'' = Some PNone \<and>
   response_field (handle_request reference_builtins ''2026-01-01T00:00:00''
                     (PDict [(''jsonrpc'', PStr ''1.0''), (''id'', PNone)])) ''id''
     = Some (PStr ''unknown'')"
  by (simp add: handle_request_dict create_response_error response_field_def dict_get_def)

lemma handle_initialize_dict:
  "handle_initialize request_id (PDict p) =
     (if \<not> truthy (dict_get p ''protocolVersion'') then
        Inr (create_response request_id PNone
               (Some [(''code'', PInt (- 32602)),
                      (''message'', PStr ''Invalid params: protocolVersion is required'')]))
      else
        Inr (create_response request_id
               (PDict [(''protocolVersion'', dict_get p ''protocolVersion''),
                       (''capabilities'',
                          PDict [(''tools'', PDict []),
                                 (''resources'', PDict []),
                                 (''prompts'', PDict [])]),
                       (''serverInfo'',
                          PDict [(''name'', PStr ''Simple MCP Calculator''),
                                 (''version'', PStr ''1.0.0''),
                                 (''description'',
                                    PStr ''Simple calculator that adds two numbers'')])])
               None))"
  by (simp add: handle_initialize_def py_get_def)

text \<open>
  Claim C7, amended. For every \<^verbatim>\<open>initialize\<close> request whose params are a mapping: if the
  value of \<^verbatim>\<open>protocolVersion\<close> in params is true in Python's sense (present and not
  \<^verbatim>\<open>None\<close>, \<^verbatim>\<open>False\<close>, zero or empty), the response is a success whose result echoes
  that value together with the fixed capabilities object and the fixed serverInfo; if
  \<^verbatim>\<open>protocolVersion\<close> is absent or its value is not true in that sense, the response is
  error -32602.
\<close>

theorem initialize_response:
  "(truthy (dict_get p ''protocolVersion'') \<longrightarrow>
      response_field (handle_initialize request_id (PDict p)) ''result'' =
        Some (PDict [(''protocolVersion'', dict_get p ''protocolVersion''),
                     (''capabilities'',
                        PDict [(''tools'', PDict []),
                               (''resources'', PDict []),
                               (''prompts'', PDict [])]),
                     (''serverInfo'',
                        PDict [(''name'', PStr ''Simple MCP Calculator''),
                               (''version'', PStr ''1.0.0''),
                               (''description'',
                                  PStr ''Simple calculator that adds two numbers'')])]) \<and>
      response_field (handle_initialize request_id (PDict p)) ''error'' = None) \<and>
   (\<not> truthy (dict_get p ''protocolVersion'') \<longrightarrow>
      error_field (handle_initialize request_id (PDict p)) ''code'' = Some (PInt (- 32602)) \<and>
      response_field (handle_initialize request_id (PDict p)) ''result'' = None)"
  by (simp add: handle_initialize_dict create_response_error create_response_result
        error_field_def response_field_def dict_get_default_def)

theorem initialize_response_witness:
  "truthy (dict_get [(''protocolVersion'', PStr ''2024-11-05'')] ''protocolVersion'') \<and>
   response_field (handle_initialize (PInt 1) (PDict [(''protocolVersion'', PStr ''2024-11-05'')]))
       ''result'' =
     Some (PDict [(''protocolVersion'', PStr ''2024-11-05''),
                  (''capabilities'',
                     PDict [(''tools'', PDict []),
                            (''resources'', PDict []),
                            (''prompts'', PDict [])]),
                  (''serverInfo'',
                     PDict [(''name'', PStr ''Simple MCP Calculator''),
                            (''version'', PStr ''1.0.0''),
                            (''description'',
                               PStr ''Simple calculator that adds two numbers'')])]) \<and>
   \<not> truthy (dict_get [] ''protocolVersion'') \<and>
   error_field (handle_initialize (PInt 1) (PDict [])) ''code'' = Some (PInt (- 32602))"
  using initialize_response [of "[(''protocolVersion'', PStr ''2024-11-05'')]" "PInt 1"]
        initialize_response [of "[]" "PInt 1"]
  by (simp add: dict_get_def)

text \<open>
  Claim C7 as stated promises a success whenever params contains \<^verbatim>\<open>protocolVersion\<close>.
  With the empty string as its value the response is error -32602 and has no result.
\<close>

theorem empty_protocolVersion_counterexample:
  "dict_contains ''protocolVersion'' [(''protocolVersion'', PStr [])] \<and>
   error_field (handle_initialize (PInt 1) (PDict [(''protocolVersion'', PStr [])])) ''code''
     = Some (PInt (- 32602)) \<and>
   response_field (handle_initialize (PInt 1) (PDict [(''protocolVersion'', PStr [])])) ''result''
     = None"
  by (simp add: handle_initialize_dict create_response_error error_field_def response_field_def
        dict_get_default_def dict_get_def dict_contains_def)

section \<open>Totality and the shape of responses\<close>

lemma is_response_create [simp]: "is_response (create_response request_id result error)"
  by (auto simp: is_response_def)

lemma is_response_internal_error [simp]: "is_response (internal_error request_id e)"
  by (simp add: internal_error_def)





lemma handle_tools_call_dict:
  "handle_tools_call py now request_id (PDict p) =
     (if \<not> truthy (dict_get p ''name'') then
        Inr (create_response request_id PNone
               (Some [(''code'', PInt (- 32602)),
                      (''message'', PStr (''Invalid params: '' @ quoted ''name'' @ '' is required''))]))
      else
        (case handle_tools_call_try py now request_id (dict_get p ''name'')
                (dict_get_default p ''arguments'' (PDict [])) of
           Inr response \<Rightarrow> Inr response
         | Inl e \<Rightarrow> Inr (internal_error request_id e)))"
  by (simp add: handle_tools_call_def Let_def)






text \<open>
  Claim C10. For every \<^verbatim>\<open>tools/call\<close> request with name "add_numbers" whose
  \<^verbatim>\<open>arguments\<close> field is present but is not a mapping, \<open>handle_tools_call\<close> returns
  error code -32603 (and so not -32602).
\<close>

theorem non_mapping_arguments:
  "dict_get p ''name'' = PStr ''add_numbers'' \<Longrightarrow>
   map_of p ''arguments'' = Some a \<Longrightarrow>
   \<not> isinstance_dict a \<Longrightarrow>
   error_field (handle_tools_call py now request_id (PDict p)) ''code'' = Some (PInt (- 32603))"
  by (cases a)
     (simp_all add: handle_tools_call_dict handle_tools_call_try_def py_get_def
        dict_get_default_def internal_error_eq error_field_def response_field_def)

section \<open>The tool executor\<close>





lemma is_integer_int_of_float:
  "is_integer f \<Longrightarrow> \<exists>i. int_of_float f = Inr i"
  by (cases f) auto

lemma add_numbers_success:
  assumes "py_float py num1 = Inr n1" and "py_float py num2 = Inr n2"
  shows "\<exists>result.
           add_numbers py now num1 num2 =
             Inr [(''number1'', PFloat n1), (''number2'', PFloat n2), (''result'', result),
                  (''operation'', PStr ''addition''), (''timestamp'', PStr now)] \<and>
           (if is_integer (fadd n1 n2)
            then \<exists>i. int_of_float (fadd n1 n2) = Inr i \<and> result = PInt i
            else result = PFloat (fadd n1 n2))"
proof (cases "is_integer (fadd n1 n2)")
  case True
  then obtain i where "int_of_float (fadd n1 n2) = Inr i"
    using is_integer_int_of_float by blast
  with True assms show ?thesis
    by (simp add: add_numbers_def add_numbers_try_def)
next
  case False
  with assms show ?thesis
    by (simp add: add_numbers_def add_numbers_try_def)
qed



lemma signed_mult: "signed s (m * k) = signed s m * int k"
  by (simp add: signed_def)

lemma rat_div_pow2_int:
  "((of_int a :: rat) / 2 ^ k = of_int j) = (a = j * 2 ^ k)"
proof -
  have "((of_int a :: rat) / 2 ^ k = of_int j) = ((of_int a :: rat) = of_int j * 2 ^ k)"
    by (simp add: field_simps)
  also have "\<dots> = ((of_int a :: rat) = of_int (j * 2 ^ k))"
    by simp
  also have "\<dots> = (a = j * 2 ^ k)"
    by (simp only: of_int_eq_iff)
  finally show ?thesis .
qed

lemma signed_dvd: "(int k dvd signed s m) = (k dvd m)"
  by (simp add: signed_def)

lemma float_val_int_of_float:
  assumes "is_integer f" and "int_of_float f = Inr i"
  shows "float_val f = Some (of_int i)"
proof (cases f)
  case (Finite s m e)
  show ?thesis
  proof (cases "0 \<le> e")
    case True
    with assms Finite show ?thesis
      by (auto simp: signed_mult)
  next
    case False
    with assms Finite have d: "2 ^ nat (- e) dvd m" by simp
    then obtain q where q: "m = 2 ^ nat (- e) * q" by (auto simp: dvd_def)
    from False have ne: "nat e = 0" by simp
    from assms Finite ne q have i: "i = signed s q" by simp
    have "signed s m = signed s q * 2 ^ nat (- e)"
      using q by (simp add: signed_def)
    then show ?thesis
      using Finite ne i by (simp add: rat_div_pow2_int)
  qed
qed (use assms in simp_all)

lemma float_val_integral:
  "is_integer f = (\<exists>k. float_val f = Some (of_int k))"
proof
  assume "is_integer f"
  then show "\<exists>k. float_val f = Some (of_int k)"
    using is_integer_int_of_float float_val_int_of_float by blast
next
  assume "\<exists>k. float_val f = Some (of_int k)"
  then obtain k where k: "float_val f = Some (of_int k)" ..
  show "is_integer f"
  proof (cases f)
    case (Finite s m e)
    show ?thesis
    proof (cases "0 \<le> e")
      case True
      with Finite show ?thesis by simp
    next
      case False
      then have ne: "nat e = 0" by simp
      from k Finite ne have "signed s m = k * 2 ^ nat (- e)"
        by (simp add: rat_div_pow2_int)
      then have "int (2 ^ nat (- e)) dvd signed s m"
        by simp
      then have "2 ^ nat (- e) dvd m"
        by (simp only: signed_dvd)
      with Finite show ?thesis by simp
    qed
  qed (use k in simp_all)
qed

text \<open>
  Claim C6. For every pair of inputs that \<open>add_numbers\<close> converts to numbers, if the
  computed sum has no fractional part (it is a finite float whose value is an integer
  \<open>k\<close>) then the result field is the integer \<open>k\<close>, and otherwise the result field is the
  floating-point sum.
\<close>

theorem integer_normalization:
  assumes "py_float py num1 = Inr n1" and "py_float py num2 = Inr n2"
  shows "\<exists>calc.
           add_numbers py now num1 num2 = Inr calc \<and>
           (\<forall>k. float_val (fadd n1 n2) = Some (of_int k) \<longrightarrow>
                map_of calc ''result'' = Some (PInt k)) \<and>
           ((\<nexists>k. float_val (fadd n1 n2) = Some (of_int k)) \<longrightarrow>
                map_of calc ''result'' = Some (PFloat (fadd n1 n2)))"
proof -
  obtain result where
    calc: "add_numbers py now num1 num2 =
             Inr [(''number1'', PFloat n1), (''number2'', PFloat n2), (''result'', result),
                  (''operation'', PStr ''addition''), (''timestamp'', PStr now)]"
    and res: "if is_integer (fadd n1 n2)
              then \<exists>i. int_of_float (fadd n1 n2) = Inr i \<and> result = PInt i
              else result = PFloat (fadd n1 n2)"
    using add_numbers_success [OF assms] by blast
  show ?thesis
  proof (cases "is_integer (fadd n1 n2)")
    case True
    with res obtain i where i: "int_of_float (fadd n1 n2) = Inr i" "result = PInt i"
      by auto
    with True have "float_val (fadd n1 n2) = Some (of_int i)"
      using float_val_int_of_float by blast
    with calc i show ?thesis by auto
  next
    case False
    with res have "result = PFloat (fadd n1 n2)" by simp
    moreover from False have "\<nexists>k. float_val (fadd n1 n2) = Some (of_int k)"
      using float_val_integral by blast
    ultimately show ?thesis using calc by auto
  qed
qed

text \<open>
  Claim C9. \<open>add_numbers\<close> is deterministic in its result field: two invocations with the
  same pair of parseable inputs, at any two clock readings \<open>t1\<close> and \<open>t2\<close>, return values
  with the same result field, while their timestamp fields are \<open>t1\<close> and \<open>t2\<close>.
\<close>

theorem result_deterministic:
  assumes "py_float py num1 = Inr n1" and "py_float py num2 = Inr n2"
  shows "\<exists>c1 c2 r.
           add_numbers py t1 num1 num2 = Inr c1 \<and>
           add_numbers py t2 num1 num2 = Inr c2 \<and>
           map_of c1 ''result'' = Some r \<and>
           map_of c2 ''result'' = Some r \<and>
           map_of c1 ''timestamp'' = Some (PStr t1) \<and>
           map_of c2 ''timestamp'' = Some (PStr t2)"
proof -
  let ?r = "if is_integer (fadd n1 n2)
            then (case int_of_float (fadd n1 n2) of Inr i \<Rightarrow> PInt i | Inl e \<Rightarrow> PNone)
            else PFloat (fadd n1 n2)"
  have "add_numbers py t num1 num2 =
          Inr [(''number1'', PFloat n1), (''number2'', PFloat n2), (''result'', ?r),
               (''operation'', PStr ''addition''), (''timestamp'', PStr t)]" for t
    using add_numbers_success [OF assms, of t] by (auto split: if_splits)
  then show ?thesis by simp
qed

section \<open>Calling the tool\<close>





section \<open>Integers beyond the range of binary64\<close>

lemma bitlen_0: "bitlen 0 = 0"
  by (simp add: bitlen.simps)

lemma bitlen_1: "bitlen (Suc 0) = Suc 0"
  by (simp add: bitlen.simps)

lemma bitlen_numeral: "bitlen (numeral k) = Suc (bitlen (numeral k div 2))"
  by (subst bitlen.simps) simp





section \<open>Evaluation on concrete requests\<close>




lemmas float_eval =
  bitlen_0 bitlen_1 bitlen_numeral float_of_int_def round_rat_def round_at_def round_half_even_def
  renormalize_def pack_def floor_log2_def log2_adjust_def of_scaled_def signed_def


lemma two_is_float: "float_of_int 2 = Finite False 4503599627370496 (- 51)"
  by (simp add: float_eval)

lemma three_is_float: "float_of_int 3 = Finite False 6755399441055744 (- 51)"
  by (simp add: float_eval)

lemma one_is_float: "float_of_int 1 = Finite False 4503599627370496 (- 52)"
  by (simp add: float_eval)

lemma two_plus_three:
  "fadd (Finite False 4503599627370496 (- 51)) (Finite False 6755399441055744 (- 51))
     = Finite False 5629499534213120 (- 50)"
  by (simp add: float_eval)

lemma add_numbers_2_3:
  "add_numbers reference_builtins now (PInt 2) (PInt 3) =
     Inr [(''number1'', PFloat (Finite False 4503599627370496 (- 51))),
          (''number2'', PFloat (Finite False 6755399441055744 (- 51))),
          (''result'', PInt 5),
          (''operation'', PStr ''addition''),
          (''timestamp'', PStr now)]"
  by (simp add: add_numbers_def add_numbers_try_def float_eval)




theorem non_mapping_arguments_witness:
  "dict_get [(''name'', PStr ''add_numbers''), (''arguments'', PList [PInt 2, PInt 3])] ''name''
     = PStr ''add_numbers'' \<and>
   map_of [(''name'', PStr ''add_numbers''), (''arguments'', PList [PInt 2, PInt 3])] ''arguments''
     = Some (PList [PInt 2, PInt 3]) \<and>
   \<not> isinstance_dict (PList [PInt 2, PInt 3]) \<and>
   error_field
     (handle_tools_call reference_builtins ''2026-01-01T00:00:00'' (PInt 1)
        (PDict [(''name'', PStr ''add_numbers''), (''arguments'', PList [PInt 2, PInt 3])]))
     ''code'' = Some (PInt (- 32603))"
  using non_mapping_arguments
          [of "[(''name'', PStr ''add_numbers''), (''arguments'', PList [PInt 2, PInt 3])]"
              "PList [PInt 2, PInt 3]" reference_builtins "''2026-01-01T00:00:00''" "PInt 1"]
  by (simp add: dict_get_def)

theorem integer_normalization_witness:
  "py_float reference_builtins (PFloat (Finite False 5629499534213120 (- 51)))
     = Inr (Finite False 5629499534213120 (- 51)) \<and>
   float_val (fadd (Finite False 5629499534213120 (- 51)) (Finite False 5629499534213120 (- 51)))
     = Some (of_int 5) \<and>
   (\<exists>calc. add_numbers reference_builtins ''2026-01-01T00:00:00''
              (PFloat (Finite False 5629499534213120 (- 51)))
              (PFloat (Finite False 5629499534213120 (- 51))) = Inr calc \<and>
           map_of calc ''result'' = Some (PInt 5))"
proof -
  let ?x = "Finite False 5629499534213120 (- 51)"
  have s: "fadd ?x ?x = Finite False 5629499534213120 (- 50)"
    by (simp add: float_eval)
  have v: "float_val (fadd ?x ?x) = Some (of_int 5)"
    unfolding s by (simp add: signed_def)
  have p: "py_float reference_builtins (PFloat ?x) = Inr ?x"
    by simp
  from integer_normalization [OF p p, of "''2026-01-01T00:00:00''"] v
  have "\<exists>calc. add_numbers reference_builtins ''2026-01-01T00:00:00'' (PFloat ?x) (PFloat ?x)
                  = Inr calc \<and> map_of calc ''result'' = Some (PInt 5)"
    by blast
  with p v show ?thesis by blast
qed

theorem result_deterministic_witness:
  "py_float reference_builtins (PInt 2) = Inr (Finite False 4503599627370496 (- 51)) \<and>
   py_float reference_builtins (PInt 3) = Inr (Finite False 6755399441055744 (- 51)) \<and>
   (\<exists>c1 c2.
      add_numbers reference_builtins ''2026-01-01T00:00:00'' (PInt 2) (PInt 3) = Inr c1 \<and>
      add_numbers reference_builtins ''2026-01-01T00:00:07'' (PInt 2) (PInt 3) = Inr c2 \<and>
      map_of c1 ''result'' = Some (PInt 5) \<and>
      map_of c2 ''result'' = Some (PInt 5) \<and>
      map_of c1 ''timestamp'' = Some (PStr ''2026-01-01T00:00:00'') \<and>
      map_of c2 ''timestamp'' = Some (PStr ''2026-01-01T00:00:07''))"
proof -
  have p2: "py_float reference_builtins (PInt 2) = Inr (Finite False 4503599627370496 (- 51))"
    by (simp add: two_is_float)
  have p3: "py_float reference_builtins (PInt 3) = Inr (Finite False 6755399441055744 (- 51))"
    by (simp add: three_is_float)
  obtain c1 c2 r where
    c: "add_numbers reference_builtins ''2026-01-01T00:00:00'' (PInt 2) (PInt 3) = Inr c1"
       "add_numbers reference_builtins ''2026-01-01T00:00:07'' (PInt 2) (PInt 3) = Inr c2"
       "map_of c1 ''result'' = Some r" "map_of c2 ''result'' = Some r"
       "map_of c1 ''timestamp'' = Some (PStr ''2026-01-01T00:00:00'')"
       "map_of c2 ''timestamp'' = Some (PStr ''2026-01-01T00:00:07'')"
    using result_deterministic [OF p2 p3, of "''2026-01-01T00:00:00''" "''2026-01-01T00:00:07''"]
    by blast
  from c(1,3) have "r = PInt 5"
    by (auto simp: add_numbers_2_3)
  with c p2 p3 show ?thesis by blast
qed






end
